theory Spec2Isabelle
  imports Main "HOL-Library.Word"
begin

section \<open>Python values\<close>

text \<open>
  The program is dynamically typed Python. The values that flow through the extractor
  and the sinks are strings, integers, byte strings, dates and \<open>None\<close>. A Python
  \<open>str\<close> is modelled as a \<open>string\<close>; a \<open>char\<close> stands for a code point below 256.
  A \<open>dict\<close> is an association list in insertion order; an object read with
  \<open>getattr\<close> is the association list of its attributes.
\<close>

type_synonym bytes = "8 word list"

datatype pyval = PNone | PStr string | PInt int | PBytes bytes | PDatetime int

type_synonym dict = "(string \<times> pyval) list"

type_synonym pyobject = "(string \<times> pyval) list"

datatype exn =
    ValueError string
  | AttributeError string
  | KeyError string
  | TypeError string
  | FileOpenError string
  | UnidentifiedImageError
  | MySQLError string

text \<open>\<open>d.get(k, default)\<close> and \<open>getattr(obj, name, default)\<close>.\<close>

definition dict_get :: "dict \<Rightarrow> string \<Rightarrow> pyval \<Rightarrow> pyval" where
  "dict_get d k dflt = (case map_of d k of None \<Rightarrow> dflt | Some v \<Rightarrow> v)"

definition getattr :: "pyobject \<Rightarrow> string \<Rightarrow> pyval \<Rightarrow> pyval" where
  "getattr obj name dflt = (case map_of obj name of None \<Rightarrow> dflt | Some v \<Rightarrow> v)"

text \<open>\<open>d[k]\<close> raises \<open>KeyError\<close> on a missing key.\<close>

definition dict_item :: "dict \<Rightarrow> string \<Rightarrow> exn + pyval" where
  "dict_item d k = (case map_of d k of None \<Rightarrow> Inl (KeyError k) | Some v \<Rightarrow> Inr v)"

subsection \<open>Strings\<close>

text \<open>
  \<open>str.isspace\<close> on one character: the white space code points below 256 are
  \<open>0x09..0x0D\<close>, \<open>0x1C..0x20\<close>, \<open>0x85\<close> and \<open>0xA0\<close>.
\<close>

definition isspace :: "char \<Rightarrow> bool" where
  "isspace c =
     (let n = (of_char c :: nat)
      in (9 \<le> n \<and> n \<le> 13) \<or> (28 \<le> n \<and> n \<le> 32) \<or> n = 133 \<or> n = 160)"

text \<open>\<open>s.strip()\<close>: drop the white space at both ends.\<close>

definition strip :: "string \<Rightarrow> string" where
  "strip s = rev (dropWhile isspace (rev (dropWhile isspace s)))"

text \<open>\<open>s.replace(old, new)\<close> for one-character \<open>old\<close> and \<open>new\<close>, as the sink calls it.\<close>

definition replace :: "char \<Rightarrow> char \<Rightarrow> string \<Rightarrow> string" where
  "replace old new s = map (\<lambda>c. if c = old then new else c) s"

text \<open>\<open>s.lower()\<close> on code points below 256.\<close>

definition lower_char :: "char \<Rightarrow> char" where
  "lower_char c =
     (let n = (of_char c :: nat)
      in if (65 \<le> n \<and> n \<le> 90) \<or> (192 \<le> n \<and> n \<le> 222 \<and> n \<noteq> 215)
         then char_of (n + 32) else c)"

definition lower :: "string \<Rightarrow> string" where
  "lower s = map lower_char s"

text \<open>\<open>sep.join(xs)\<close>.\<close>

fun join :: "string \<Rightarrow> string list \<Rightarrow> string" where
  "join sep [] = []"
| "join sep [x] = x"
| "join sep (x # y # ys) = x @ sep @ join sep (y # ys)"

text \<open>\<open>sub in s\<close> on strings.\<close>

fun starts_with :: "string \<Rightarrow> string \<Rightarrow> bool" where
  "starts_with [] s = True"
| "starts_with (p # ps) [] = False"
| "starts_with (p # ps) (c # cs) = (p = c \<and> starts_with ps cs)"

fun contains :: "string \<Rightarrow> string \<Rightarrow> bool" where
  "contains sub [] = (sub = [])"
| "contains sub (c # cs) = (starts_with sub (c # cs) \<or> contains sub cs)"

text \<open>\<open>str(n)\<close> of a non-negative integer: its decimal digits.\<close>

definition digit :: "nat \<Rightarrow> char" where
  "digit d = char_of (48 + d)"

fun str :: "nat \<Rightarrow> string" where
  "str n = (if n < 10 then [digit n] else str (n div 10) @ [digit (n mod 10)])"

declare str.simps [simp del]

text \<open>A \<open>for\<close> loop whose body may raise: the first exception ends the loop.\<close>

fun for_each :: "('a \<Rightarrow> 's \<Rightarrow> exn + 's) \<Rightarrow> 'a list \<Rightarrow> 's \<Rightarrow> exn + 's" where
  "for_each body [] acc = Inr acc"
| "for_each body (x # xs) acc =
     (case body x acc of Inl e \<Rightarrow> Inl e | Inr acc' \<Rightarrow> for_each body xs acc')"


section \<open>The loaded documents\<close>

text \<open>
  The extractor reads third-party object models. Each is modelled by the attributes
  the extractor reads, under the attribute's name where names do not clash. An optional
  attribute (probed with \<open>hasattr\<close>) is an \<open>option\<close>.
\<close>

subsection \<open>PDF as loaded by PyPDF2 (\<open>self.file\<close> for type pdf)\<close>

record pdf_page =
  page_text :: "string option"  \<comment> \<open>\<open>page.extract_text()\<close>\<close>

record pdf_reader =
  pdf_pages :: "pdf_page list"  \<comment> \<open>\<open>file.pages\<close>\<close>
  metadata :: pyobject  \<comment> \<open>\<open>file.metadata\<close>; \<open>None\<close> has none of the attributes read\<close>

subsection \<open>Tables of python-docx and python-pptx\<close>

record table_cell =
  cell_text :: string  \<comment> \<open>\<open>cell.text\<close>\<close>

record table_row =
  cells :: "table_cell list"

record table_object =
  rows :: "table_row list"

subsection \<open>DOCX as loaded by python-docx\<close>

record docx_paragraph =
  para_text :: string  \<comment> \<open>\<open>para.text\<close>\<close>
  hyperlink_ids :: "string option list"
    \<comment> \<open>for each element of \<open>para._p.xpath('.//w:hyperlink')\<close>, its \<open>r:id\<close> attribute\<close>

record relationship =
  target_ref :: string
  target_blob :: "bytes option"
    \<comment> \<open>\<open>rel.target_part.blob\<close>; an external relationship has no target part\<close>

record docx_document =
  paragraphs :: "docx_paragraph list"
  tables :: "table_object list"
  rels :: "(string \<times> relationship) list"  \<comment> \<open>\<open>part.rels\<close>, keyed by relationship id\<close>
  core_properties :: pyobject

subsection \<open>PPTX as loaded by python-pptx\<close>

datatype hyperlink = Hyperlink (address: "string option")

record run =
  run_hyperlink :: "hyperlink option"  \<comment> \<open>\<open>run.hyperlink\<close> when \<open>hasattr(run, "hyperlink")\<close>\<close>

record text_paragraph =
  runs :: "run list"

record text_frame =
  frame_paragraphs :: "text_paragraph list"  \<comment> \<open>\<open>text_frame.paragraphs\<close>\<close>

record shape =
  shape_text :: "string option"  \<comment> \<open>\<open>shape.text\<close> when \<open>hasattr(shape, "text")\<close>\<close>
  shape_image :: "bytes option"
    \<comment> \<open>\<open>shape.image.blob\<close> when \<open>hasattr(shape, "image") and shape.image\<close>\<close>
  shape_table :: "table_object option"
    \<comment> \<open>\<open>shape.table\<close> when \<open>shape.has_table\<close>\<close>
  shape_hyperlink :: "hyperlink option"
    \<comment> \<open>\<open>shape.hyperlink\<close> when \<open>hasattr(shape, "hyperlink")\<close>\<close>
  shape_text_frame :: "text_frame option"
    \<comment> \<open>\<open>shape.text_frame\<close> when \<open>hasattr(shape, "text_frame")\<close>\<close>

record slide =
  shapes :: "shape list"

record presentation =
  slides :: "slide list"
  pptx_core_properties :: pyobject  \<comment> \<open>\<open>file.core_properties\<close>\<close>

subsection \<open>The file of a path, as PyMuPDF, pdfplumber and PIL read it\<close>

type_synonym table = "pyval list list"

record base_image =
  image_bytes :: bytes  \<comment> \<open>\<open>base_image["image"]\<close>\<close>
  ext :: string
  image_width :: nat
  image_height :: nat

record fitz_page =
  get_images :: "nat list"
    \<comment> \<open>the first component (xref) of each tuple of \<open>page.get_images(full=True)\<close>\<close>
  get_links :: "dict list"  \<comment> \<open>\<open>page.get_links()\<close>\<close>

record fitz_doc =
  fitz_pages :: "fitz_page list"
  extract_image :: "(nat \<times> base_image) list"  \<comment> \<open>\<open>doc.extract_image(xref)\<close>\<close>

record plumber_page =
  page_tables :: "table list"  \<comment> \<open>\<open>page.extract_tables()\<close>\<close>

record plumber_pdf =
  plumber_pages :: "plumber_page list"

record pil_image =
  format :: string
  width :: nat
  height :: nat

text \<open>
  What is outside the extractor object: the files on disk as \<open>fitz.open\<close> and
  \<open>pdfplumber.open\<close> parse them (\<open>None\<close>: the open raises), and PIL's decoder
  (\<open>None\<close>: the bytes are no image it knows).
\<close>

record env =
  fitz_open :: "string \<Rightarrow> fitz_doc option"
  pdfplumber_open :: "string \<Rightarrow> plumber_pdf option"
  Image_open :: "bytes \<Rightarrow> pil_image option"

subsection \<open>The extractor object\<close>

datatype document =
    PdfReader pdf_reader
  | Document docx_document
  | Presentation presentation
  | NoFile

record DataExtractor =
  file_object :: document  \<comment> \<open>\<open>self.file\<close>\<close>
  file_path :: string
  file_type :: string


section \<open>The extractor (file\_extractor.py)\<close>

subsection \<open>Helpers\<close>

text \<open>\<open>_extract_metadata\<close>: four \<open>getattr\<close> reads with the empty string as default.\<close>

definition extract_metadata :: "pyobject \<Rightarrow> dict" where
  "extract_metadata properties =
     [(''author'', getattr properties ''author'' (PStr [])),
      (''created'', getattr properties ''created'' (PStr [])),
      (''last_modified_by'', getattr properties ''last_modified_by'' (PStr [])),
      (''title'', getattr properties ''title'' (PStr []))]"

text \<open>\<open>_extract_table_row\<close>: \<open>[cell.text.strip() for cell in row.cells]\<close>.\<close>

definition extract_table_row :: "table_row \<Rightarrow> pyval list" where
  "extract_table_row row = map (\<lambda>cell. PStr (strip (cell_text cell))) (cells row)"

text \<open>\<open>_extract_pdf_link\<close>: one dict per entry of \<open>page.get_links()\<close>.\<close>

definition extract_pdf_link :: "fitz_page \<Rightarrow> nat \<Rightarrow> dict list" where
  "extract_pdf_link page page_number =
     map (\<lambda>link. [(''url'', dict_get link ''uri'' (PStr [])),
                   (''page_number'', PInt (int page_number))])
         (get_links page)"

text \<open>
  \<open>_process_image(file_type, img, doc=None, page_number=None)\<close>. The arguments are
  dynamically typed: \<open>img\<close> is a tuple starting with an xref, a blob or a shape.
\<close>

datatype arg = ANone | AInt nat | AXref nat | ABlob bytes | AShape shape | ADoc fitz_doc

definition arg_value :: "arg \<Rightarrow> pyval" where
  "arg_value a = (case a of AInt n \<Rightarrow> PInt (int n) | _ \<Rightarrow> PNone)"

definition resolution :: "nat \<Rightarrow> nat \<Rightarrow> string" where
  "resolution w h = str w @ ''x'' @ str h"

definition process_image :: "env \<Rightarrow> string \<Rightarrow> arg \<Rightarrow> arg \<Rightarrow> arg \<Rightarrow> exn + dict" where
  "process_image e ftype img doc page_number =
     (if ftype = ''pdf'' then
        (case (doc, img) of
           (ADoc d, AXref xref) \<Rightarrow>
             (case map_of (extract_image d) xref of
                None \<Rightarrow> Inl (KeyError ''image'')
              | Some base \<Rightarrow>
                  Inr [(''image'', PBytes (image_bytes base)),
                       (''image_format'', PStr (ext base)),
                       (''image_resolution'',
                          PStr (resolution (image_width base) (image_height base))),
                       (''page_number'', arg_value page_number)])
         | _ \<Rightarrow> Inl (TypeError ''extract_image''))
      else if ftype = ''docx'' then
        (case img of
           ABlob image_blob \<Rightarrow>
             (case Image_open e image_blob of
                None \<Rightarrow> Inl UnidentifiedImageError
              | Some pil \<Rightarrow>
                  Inr [(''image'', PBytes image_blob),
                       (''image_format'', PStr (lower (format pil))),
                       (''image_resolution'', PStr (resolution (width pil) (height pil)))])
         | _ \<Rightarrow> Inl (TypeError ''BytesIO''))
      else if ftype = ''pptx'' then
        (case img of
           AShape sh \<Rightarrow>
             (case shape_image sh of
                None \<Rightarrow> Inl (AttributeError ''image'')
              | Some image_blob \<Rightarrow>
                  (case Image_open e image_blob of
                     None \<Rightarrow> Inl UnidentifiedImageError
                   | Some pil \<Rightarrow>
                       Inr [(''image'', PBytes image_blob),
                            (''image_format'', PStr (lower (format pil))),
                            (''image_resolution'',
                               PStr (resolution (width pil) (height pil))),
                            (''slide_number'', arg_value page_number)]))
         | _ \<Rightarrow> Inl (AttributeError ''image''))
      else Inl (ValueError ''Unsupported file type for image processing.''))"

text \<open>\<open>x or ""\<close> on an optional string.\<close>

definition or_empty :: "string option \<Rightarrow> string" where
  "or_empty x = (case x of None \<Rightarrow> [] | Some t \<Rightarrow> if t = [] then [] else t)"

text \<open>\<open>hasattr(x, "hyperlink") and x.hyperlink.address\<close>: the address when it is truthy.\<close>

definition hyperlink_address :: "hyperlink option \<Rightarrow> string option" where
  "hyperlink_address h =
     (case h of
        None \<Rightarrow> None
      | Some l \<Rightarrow> (case address l of None \<Rightarrow> None | Some a \<Rightarrow> if a = [] then None else Some a))"

definition unsupported :: exn where
  "unsupported = ValueError ''Unsupported file format. Only PDF, DOCX, and PPTX are supported.''"

subsection \<open>The four operations\<close>

text \<open>
  Each operation compares \<open>self.file_type\<close> with the three known extensions in the
  source's order and raises \<open>ValueError\<close> in the final \<open>else\<close>. Reading an attribute
  that the loaded object does not have raises \<open>AttributeError\<close>.
\<close>

definition extract_text :: "DataExtractor \<Rightarrow> exn + (string \<times> dict)" where
  "extract_text self =
     (if file_type self = ''pdf'' then
        (case file_object self of
           PdfReader r \<Rightarrow>
             Inr (join [] (map (\<lambda>page. or_empty (page_text page)) (pdf_pages r)),
                  extract_metadata (metadata r))
         | _ \<Rightarrow> Inl (AttributeError ''pages''))
      else if file_type self = ''docx'' then
        (case file_object self of
           Document d \<Rightarrow>
             Inr (join ''\<newline>'' (map para_text (paragraphs d)),
                  extract_metadata (core_properties d))
         | _ \<Rightarrow> Inl (AttributeError ''paragraphs''))
      else if file_type self = ''pptx'' then
        (case file_object self of
           Presentation p \<Rightarrow>
             Inr (join ''\<newline>''
                    [the (shape_text sh). sl \<leftarrow> slides p, sh \<leftarrow> shapes sl, shape_text sh \<noteq> None],
                  extract_metadata (pptx_core_properties p))
         | _ \<Rightarrow> Inl (AttributeError ''slides''))
      else Inl unsupported)"

definition append_image :: "exn + dict \<Rightarrow> dict list \<Rightarrow> exn + dict list" where
  "append_image r images = (case r of Inl err \<Rightarrow> Inl err | Inr d \<Rightarrow> Inr (images @ [d]))"

definition extract_images :: "env \<Rightarrow> DataExtractor \<Rightarrow> exn + dict list" where
  "extract_images e self =
     (if file_type self = ''pdf'' then
        (case fitz_open e (file_path self) of
           None \<Rightarrow> Inl (FileOpenError (file_path self))
         | Some doc \<Rightarrow>
             for_each
               (\<lambda>page_num. for_each
                  (\<lambda>img images.
                     append_image
                       (process_image e ''pdf'' (AXref img) (ADoc doc) (AInt (page_num + 1)))
                       images)
                  (get_images (fitz_pages doc ! page_num)))
               [0 ..< length (fitz_pages doc)] [])
      else if file_type self = ''docx'' then
        (case file_object self of
           Document d \<Rightarrow>
             for_each
               (\<lambda>rel images.
                  if contains ''image'' (target_ref rel) then
                    (case target_blob rel of
                       None \<Rightarrow> Inl (ValueError ''target_part'')
                     | Some image_blob \<Rightarrow>
                         append_image (process_image e ''docx'' (ABlob image_blob) ANone ANone)
                           images)
                  else Inr images)
               (map snd (rels d)) []
         | _ \<Rightarrow> Inl (AttributeError ''part''))
      else if file_type self = ''pptx'' then
        (case file_object self of
           Presentation p \<Rightarrow>
             for_each
               (\<lambda>(slide_num, sl). for_each
                  (\<lambda>sh images.
                     if shape_image sh \<noteq> None then
                       append_image
                         (process_image e ''pptx'' (AShape sh) (AInt (slide_num + 1)) ANone)
                         images
                     else Inr images)
                  (shapes sl))
               (enumerate 0 (slides p)) []
         | _ \<Rightarrow> Inl (AttributeError ''slides''))
      else Inl unsupported)"

definition extract_tables :: "env \<Rightarrow> DataExtractor \<Rightarrow> exn + table list" where
  "extract_tables e self =
     (if file_type self = ''pdf'' then
        (case pdfplumber_open e (file_path self) of
           None \<Rightarrow> Inl (FileOpenError (file_path self))
         | Some pdf \<Rightarrow>
             Inr (fold (\<lambda>page tbls. tbls @ (if page_tables page = [] then [] else page_tables page))
                    (plumber_pages pdf) []))
      else if file_type self = ''docx'' then
        (case file_object self of
           Document d \<Rightarrow> Inr [[extract_table_row row. row \<leftarrow> rows t]. t \<leftarrow> tables d]
         | _ \<Rightarrow> Inl (AttributeError ''tables''))
      else if file_type self = ''pptx'' then
        (case file_object self of
           Presentation p \<Rightarrow>
             Inr (fold (\<lambda>sl. fold
                          (\<lambda>sh tbls.
                             case shape_table sh of
                               Some t \<Rightarrow> tbls @ [[extract_table_row row. row \<leftarrow> rows t]]
                             | None \<Rightarrow> tbls)
                          (shapes sl))
                    (slides p) [])
         | _ \<Rightarrow> Inl (AttributeError ''slides''))
      else Inl unsupported)"

text \<open>The two inner loops of the PPTX branch of \<open>extract_links\<close>, for one shape.\<close>

definition slide_link :: "string \<Rightarrow> nat \<Rightarrow> dict" where
  "slide_link a slide_num = [(''url'', PStr a), (''slide_number'', PInt (int (slide_num + 1)))]"

definition run_links :: "nat \<Rightarrow> text_frame \<Rightarrow> dict list \<Rightarrow> dict list" where
  "run_links slide_num tf links0 =
     fold (\<lambda>par. fold
             (\<lambda>r links.
                case hyperlink_address (run_hyperlink r) of
                  Some a \<Rightarrow> links @ [slide_link a slide_num]
                | None \<Rightarrow> links)
             (runs par))
       (frame_paragraphs tf) links0"

definition shape_links :: "nat \<Rightarrow> shape \<Rightarrow> dict list \<Rightarrow> dict list" where
  "shape_links slide_num sh links0 =
     (let links1 =
            (case hyperlink_address (shape_hyperlink sh) of
               Some a \<Rightarrow> links0 @ [slide_link a slide_num]
             | None \<Rightarrow> links0)
      in case shape_text_frame sh of
           Some tf \<Rightarrow> run_links slide_num tf links1
         | None \<Rightarrow> links1)"

definition extract_links :: "env \<Rightarrow> DataExtractor \<Rightarrow> exn + dict list" where
  "extract_links e self =
     (if file_type self = ''pdf'' then
        (case fitz_open e (file_path self) of
           None \<Rightarrow> Inl (FileOpenError (file_path self))
         | Some doc \<Rightarrow>
             Inr (fold (\<lambda>page_num links.
                          links @ extract_pdf_link (fitz_pages doc ! page_num) (page_num + 1))
                    [0 ..< length (fitz_pages doc)] []))
      else if file_type self = ''docx'' then
        (case file_object self of
           Document d \<Rightarrow>
             Inr (fold (\<lambda>para. fold
                          (\<lambda>rId links.
                             case rId of
                               None \<Rightarrow> links
                             | Some i \<Rightarrow>
                                 (case map_of (rels d) i of
                                    None \<Rightarrow> links
                                  | Some rel \<Rightarrow>
                                      links @ [[(''url'', PStr (target_ref rel)),
                                                (''page_number'', PNone)]]))
                          (hyperlink_ids para))
                    (paragraphs d) [])
         | _ \<Rightarrow> Inl (AttributeError ''paragraphs''))
      else if file_type self = ''pptx'' then
        (case file_object self of
           Presentation p \<Rightarrow>
             Inr (fold (\<lambda>(slide_num, sl). fold (shape_links slide_num) (shapes sl))
                    (enumerate 0 (slides p)) [])
         | _ \<Rightarrow> Inl (AttributeError ''slides''))
      else Inl unsupported)"


section \<open>The relational sink (storage.py, class MySQLStorage)\<close>

subsection \<open>The database server\<close>

text \<open>
  The server is outside the program. What it answers to a call may depend on every call
  it has received, so the state of the connection is the list of calls made so far and
  the server is any function of that list. A \<open>Some msg\<close> or \<open>Inl msg\<close> answer is a
  \<open>mysql.connector.Error\<close> with that message. A row of \<open>SHOW COLUMNS\<close> has at least
  its first column.
\<close>

datatype db_call = Execute string "pyval list" | Fetchone | Fetchall | Commit

record server =
  execute :: "db_call list \<Rightarrow> string \<Rightarrow> pyval list \<Rightarrow> string option"
  fetchone :: "db_call list \<Rightarrow> string + pyval list option"
  fetchall :: "db_call list \<Rightarrow> string + (pyval \<times> pyval list) list"
  commit :: "db_call list \<Rightarrow> string option"

text \<open>The lines printed by \<open>save\<close>, by their interpolated values.\<close>

datatype report =
    Error_creating string string
      \<comment> \<open>\<open>Error checking/creating table {table_name}: {err}\<close>\<close>
  | Error_inserting string string "pyval list"
      \<comment> \<open>\<open>Error inserting into table {table_name}: {err} for row: {row}\<close>\<close>
  | Data_saved  \<comment> \<open>\<open>Data saved to MySQL database\<close>\<close>

text \<open>
  The state of the sink: the class attribute \<open>MySQLStorage.table_name\<close> (1 when the
  class is created), the calls made on the connection, and what was printed.
\<close>

record sink =
  table_name :: nat
  history :: "db_call list"
  stdout :: "report list"

definition cursor_execute :: "server \<Rightarrow> string \<Rightarrow> pyval list \<Rightarrow> sink \<Rightarrow> string option \<times> sink" where
  "cursor_execute srv sql params s =
     (execute srv (history s) sql params, s\<lparr>history := history s @ [Execute sql params]\<rparr>)"

definition cursor_fetchone :: "server \<Rightarrow> sink \<Rightarrow> (string + pyval list option) \<times> sink" where
  "cursor_fetchone srv s = (fetchone srv (history s), s\<lparr>history := history s @ [Fetchone]\<rparr>)"

definition cursor_fetchall :: "server \<Rightarrow> sink \<Rightarrow> (string + (pyval \<times> pyval list) list) \<times> sink" where
  "cursor_fetchall srv s = (fetchall srv (history s), s\<lparr>history := history s @ [Fetchall]\<rparr>)"

definition conn_commit :: "server \<Rightarrow> sink \<Rightarrow> string option \<times> sink" where
  "conn_commit srv s = (commit srv (history s), s\<lparr>history := history s @ [Commit]\<rparr>)"

subsection \<open>The statements\<close>

definition quote :: string where
  "quote = [CHR 0x27]"

definition backtick :: string where
  "backtick = [CHR 0x60]"

definition show_tables_query :: "string \<Rightarrow> string" where
  "show_tables_query tname = ''SHOW TABLES LIKE '' @ quote @ tname @ quote"

definition show_columns_query :: "string \<Rightarrow> string" where
  "show_columns_query tname = ''SHOW COLUMNS FROM '' @ tname"

definition alter_table_query :: "string \<Rightarrow> string \<Rightarrow> string" where
  "alter_table_query tname col =
     ''ALTER TABLE '' @ tname @ '' ADD COLUMN '' @ backtick @ col @ backtick @ '' TEXT''"

definition create_table_query :: "string \<Rightarrow> string list \<Rightarrow> string" where
  "create_table_query tname cols =
     ''CREATE TABLE '' @ tname @ '' (id INT AUTO_INCREMENT PRIMARY KEY, ''
       @ join '', '' (map (\<lambda>col. backtick @ col @ backtick @ '' TEXT'') cols) @ '')''"

definition insert_query :: "string \<Rightarrow> string list \<Rightarrow> pyval list \<Rightarrow> string" where
  "insert_query tname cols row =
     ''INSERT INTO '' @ tname @ '' (''
       @ join '', '' (map (\<lambda>col. backtick @ col @ backtick) cols)
       @ '') VALUES ('' @ join '', '' (replicate (length row) ''%s'') @ '')''"

subsection \<open>Saving the tables\<close>

text \<open>
  \<open>col.strip().replace(" ", "_").replace("-", "_").replace(".", "_")\<close> for each cell of
  row 0. A cell that is not a string has no such method.
\<close>

definition sanitize :: "string \<Rightarrow> string" where
  "sanitize col =
     replace (CHR ''.'') (CHR ''_'') (replace (CHR ''-'') (CHR ''_'')
       (replace (CHR '' '') (CHR ''_'') (strip col)))"

definition sanitized_columns :: "pyval list \<Rightarrow> exn + string list" where
  "sanitized_columns header =
     for_each
       (\<lambda>col acc. case col of
                     PStr c \<Rightarrow> Inr (acc @ [sanitize c])
                   | _ \<Rightarrow> Inl (AttributeError ''strip''))
       header []"

text \<open>The loop that adds the missing columns to a table that exists.\<close>

fun add_missing_columns ::
  "server \<Rightarrow> string \<Rightarrow> pyval list \<Rightarrow> string list \<Rightarrow> sink \<Rightarrow> string option \<times> sink" where
  "add_missing_columns srv tname existing_columns [] s = (None, s)"
| "add_missing_columns srv tname existing_columns (col # cols) s =
     (if PStr col \<notin> set existing_columns then
        (case cursor_execute srv (alter_table_query tname col) [] s of
           (Some err, s') \<Rightarrow> (Some err, s')
         | (None, s') \<Rightarrow> add_missing_columns srv tname existing_columns cols s')
      else add_missing_columns srv tname existing_columns cols s)"

text \<open>
  The first \<open>try\<close> block: look the table up, then add columns or create it. The result
  is the message of the \<open>mysql.connector.Error\<close> that ended the block, if one did.
\<close>

definition check_create_table ::
  "server \<Rightarrow> string \<Rightarrow> string list \<Rightarrow> sink \<Rightarrow> string option \<times> sink" where
  "check_create_table srv tname cols s =
     (case cursor_execute srv (show_tables_query tname) [] s of
        (Some err, s1) \<Rightarrow> (Some err, s1)
      | (None, s1) \<Rightarrow>
          (case cursor_fetchone srv s1 of
             (Inl err, s2) \<Rightarrow> (Some err, s2)
           | (Inr result, s2) \<Rightarrow>
               if result \<noteq> None \<and> result \<noteq> Some [] then
                 (case cursor_execute srv (show_columns_query tname) [] s2 of
                    (Some err, s3) \<Rightarrow> (Some err, s3)
                  | (None, s3) \<Rightarrow>
                      (case cursor_fetchall srv s3 of
                         (Inl err, s4) \<Rightarrow> (Some err, s4)
                       | (Inr columns, s4) \<Rightarrow>
                           add_missing_columns srv tname (map fst columns) cols s4))
               else cursor_execute srv (create_table_query tname cols) [] s2))"

text \<open>The loop over \<open>table[1:]\<close>, with its own \<open>try\<close> block around each insertion.\<close>

fun insert_rows :: "server \<Rightarrow> string \<Rightarrow> string list \<Rightarrow> pyval list list \<Rightarrow> sink \<Rightarrow> sink" where
  "insert_rows srv tname cols [] s = s"
| "insert_rows srv tname cols (row # rest) s =
     (case cursor_execute srv (insert_query tname cols row) row s of
        (Some err, s') \<Rightarrow>
          insert_rows srv tname cols rest
            (s'\<lparr>stdout := stdout s' @ [Error_inserting tname err row]\<rparr>)
      | (None, s') \<Rightarrow> insert_rows srv tname cols rest s')"

text \<open>
  The body of the loop over the extracted tables, and the loop. An exception that is
  not caught leaves the loop with the state reached.
\<close>

definition save_table :: "server \<Rightarrow> table \<Rightarrow> sink \<Rightarrow> exn option \<times> sink" where
  "save_table srv tbl s =
     (case tbl of
        [] \<Rightarrow> (None, s)
      | header # data \<Rightarrow>
          (case sanitized_columns header of
             Inl e \<Rightarrow> (Some e, s)
           | Inr cols \<Rightarrow>
               (let tname = ''extracted_table_'' @ str (table_name s);
                    s1 = s\<lparr>table_name := table_name s + 1\<rparr>
                in case check_create_table srv tname cols s1 of
                     (Some err, s2) \<Rightarrow> (None, s2\<lparr>stdout := stdout s2 @ [Error_creating tname err]\<rparr>)
                   | (None, s2) \<Rightarrow> (None, insert_rows srv tname cols data s2))))"

fun save_tables :: "server \<Rightarrow> table list \<Rightarrow> sink \<Rightarrow> exn option \<times> sink" where
  "save_tables srv [] s = (None, s)"
| "save_tables srv (tbl # rest) s =
     (case save_table srv tbl s of
        (Some e, s') \<Rightarrow> (Some e, s')
      | (None, s') \<Rightarrow> save_tables srv rest s')"

subsection \<open>Creating the fixed tables and saving a document\<close>

text \<open>
  A \<open>mysql.connector.Error\<close> outside a \<open>try\<close> block is an exception of the caller;
  \<open>and_then\<close> runs the next statement unless one has been raised.
\<close>

definition raising :: "string option \<times> sink \<Rightarrow> exn option \<times> sink" where
  "raising r = (case r of (Some err, s) \<Rightarrow> (Some (MySQLError err), s) | (None, s) \<Rightarrow> (None, s))"

definition and_then ::
  "exn option \<times> sink \<Rightarrow> (sink \<Rightarrow> exn option \<times> sink) \<Rightarrow> exn option \<times> sink" where
  "and_then r f = (case r of (Some e, s) \<Rightarrow> (Some e, s) | (None, s) \<Rightarrow> f s)"

text \<open>\<open>create_tables\<close>, called by \<open>__init__\<close> for every new sink object.\<close>

definition create_tables :: "server \<Rightarrow> sink \<Rightarrow> exn option \<times> sink" where
  "create_tables srv s =
     and_then (raising (cursor_execute srv
        ''CREATE TABLE IF NOT EXISTS extracted_text (content TEXT)'' [] s))
     (\<lambda>s. and_then (raising (cursor_execute srv
        ''CREATE TABLE IF NOT EXISTS extracted_links (link TEXT, page_number INTEGER)'' [] s))
     (\<lambda>s. and_then (raising (cursor_execute srv
        ''CREATE TABLE IF NOT EXISTS extracted_images (image LONGBLOB, image_format TEXT, resolution TEXT, page_number INTEGER)'' [] s))
     (\<lambda>s. raising (conn_commit srv s))))"

text \<open>\<open>d.get('page_number', d.get('slide_number'))\<close>.\<close>

definition location :: "dict \<Rightarrow> pyval" where
  "location d = dict_get d ''page_number'' (dict_get d ''slide_number'' PNone)"

definition save_text :: "server \<Rightarrow> string \<Rightarrow> sink \<Rightarrow> exn option \<times> sink" where
  "save_text srv text_content s =
     (if text_content \<noteq> [] then
        raising (cursor_execute srv ''INSERT INTO extracted_text (content) VALUES (%s)''
                   [PStr text_content] s)
      else (None, s))"

fun save_links :: "server \<Rightarrow> dict list \<Rightarrow> sink \<Rightarrow> exn option \<times> sink" where
  "save_links srv [] s = (None, s)"
| "save_links srv (link # rest) s =
     (case dict_item link ''url'' of
        Inl e \<Rightarrow> (Some e, s)
      | Inr url \<Rightarrow>
          and_then
            (raising (cursor_execute srv
               ''INSERT INTO extracted_links (link, page_number) VALUES (%s, %s)''
               [url, location link] s))
            (save_links srv rest))"

text \<open>\<open>bytes(x)\<close>.\<close>

definition py_bytes :: "pyval \<Rightarrow> exn + pyval" where
  "py_bytes v =
     (case v of
        PBytes b \<Rightarrow> Inr (PBytes b)
      | PInt n \<Rightarrow>
          if 0 \<le> n then Inr (PBytes (replicate (nat n) 0)) else Inl (ValueError ''negative count'')
      | _ \<Rightarrow> Inl (TypeError ''bytes''))"

fun save_images :: "server \<Rightarrow> dict list \<Rightarrow> sink \<Rightarrow> exn option \<times> sink" where
  "save_images srv [] s = (None, s)"
| "save_images srv (img # rest) s =
     (case dict_item img ''image'' of
        Inl e \<Rightarrow> (Some e, s)
      | Inr blob \<Rightarrow>
          (case py_bytes blob of
             Inl e \<Rightarrow> (Some e, s)
           | Inr img_data \<Rightarrow>
               (case dict_item img ''image_format'' of
                  Inl e \<Rightarrow> (Some e, s)
                | Inr fmt \<Rightarrow>
                    (case dict_item img ''image_resolution'' of
                       Inl e \<Rightarrow> (Some e, s)
                     | Inr res \<Rightarrow>
                         and_then
                           (raising (cursor_execute srv
                              ''INSERT INTO extracted_images (image, image_format, resolution, page_number) VALUES (%s, %s, %s, %s)''
                              [img_data, fmt, res, location img] s))
                           (save_images srv rest)))))"

text \<open>
  \<open>MySQLStorage.save\<close>: text, links, images, tables, then the commit and the final
  message. Each extraction is called when its block is reached.
\<close>

definition save :: "server \<Rightarrow> env \<Rightarrow> DataExtractor \<Rightarrow> sink \<Rightarrow> exn option \<times> sink" where
  "save srv e self s =
     (case extract_text self of
        Inl ex \<Rightarrow> (Some ex, s)
      | Inr (text_content, meta) \<Rightarrow>
          and_then (save_text srv text_content s)
            (\<lambda>s. case extract_links e self of
                    Inl ex \<Rightarrow> (Some ex, s)
                  | Inr links \<Rightarrow>
                      and_then (save_links srv links s)
                        (\<lambda>s. case extract_images e self of
                                Inl ex \<Rightarrow> (Some ex, s)
                              | Inr images \<Rightarrow>
                                  and_then (save_images srv images s)
                                    (\<lambda>s. case extract_tables e self of
                                            Inl ex \<Rightarrow> (Some ex, s)
                                          | Inr tbls \<Rightarrow>
                                              and_then (save_tables srv tbls s)
                                                (\<lambda>s. and_then (raising (conn_commit srv s))
                                                   (\<lambda>s. (None, s\<lparr>stdout := stdout s @ [Data_saved]\<rparr>)))))))"


section \<open>The specification's words\<close>

text \<open>
  The definitions of this section follow the wording of the specification, not the code.
  The theorems below compare the code with them.
\<close>

text \<open>A string with no white space at either end, and a cell that is such a string.\<close>

definition stripped :: "string \<Rightarrow> bool" where
  "stripped s = (s = [] \<or> (\<not> isspace (hd s) \<and> \<not> isspace (last s)))"

definition stripped_cell :: "pyval \<Rightarrow> bool" where
  "stripped_cell c = (case c of PStr s \<Rightarrow> stripped s | _ \<Rightarrow> False)"

definition all_cells_stripped :: "table list \<Rightarrow> bool" where
  "all_cells_stripped tbls = list_all (list_all (list_all stripped_cell)) tbls"

text \<open>The rows of a table object, each cell the stripped text of the cell.\<close>

definition stripped_rows :: "table_object \<Rightarrow> table" where
  "stripped_rows t = map (\<lambda>r. map (\<lambda>c. PStr (strip (cell_text c))) (cells r)) (rows t)"

text \<open>The tables of a presentation: every shape that is a table, slide by slide.\<close>

definition slide_tables :: "presentation \<Rightarrow> table_object list" where
  "slide_tables p = List.map_filter shape_table (concat (map shapes (slides p)))"

text \<open>
  The links of page \<open>i\<close> (counted from 0): one per entry of the page's link list, the
  entry's URI or the empty string, and the 1-based page number.
\<close>

definition page_links :: "fitz_doc \<Rightarrow> nat \<Rightarrow> dict list" where
  "page_links doc i =
     map (\<lambda>entry. [(''url'', case map_of entry ''uri'' of Some u \<Rightarrow> u | None \<Rightarrow> PStr []),
                    (''page_number'', PInt (int i + 1))])
         (get_links (fitz_pages doc ! i))"





text \<open>Spaces, hyphens and periods replaced by underscores, and nothing else done.\<close>

definition spec_sanitize :: "string \<Rightarrow> string" where
  "spec_sanitize col =
     map (\<lambda>ch. if ch = CHR '' '' \<or> ch = CHR ''-'' \<or> ch = CHR ''.'' then CHR ''_'' else ch) col"

text \<open>Tables whose row 0, when there is one, has only strings as cells.\<close>

definition string_cells :: "pyval list \<Rightarrow> bool" where
  "string_cells header = list_all (\<lambda>c. case c of PStr x \<Rightarrow> True | _ \<Rightarrow> False) header"

definition string_headers :: "table list \<Rightarrow> bool" where
  "string_headers tbls =
     list_all (\<lambda>t. case t of [] \<Rightarrow> True | header # data \<Rightarrow> string_cells header) tbls"


section \<open>Properties of the extractor\<close>

subsection \<open>Lists and strings\<close>

lemma length_join:
  "xs \<noteq> [] \<Longrightarrow> length (join sep xs) = sum_list (map length xs) + length sep * (length xs - 1)"
  by (induction sep xs rule: join.induct) auto

text \<open>A loop that only appends is a concatenation.\<close>

lemma fold_append:
  assumes "\<And>x acc. g x acc = acc @ f x"
  shows "fold g xs acc = acc @ concat (map f xs)"
  by (induction xs arbitrary: acc) (simp_all add: assms)

lemma fold_fold_append:
  assumes "\<And>x acc. g x acc = acc @ f x"
  shows "fold (\<lambda>y. fold g (h y)) ys acc = acc @ concat (map f (concat (map h ys)))"
  by (induction ys arbitrary: acc) (simp_all add: fold_append [of g f, OF assms])

lemma concat_option_map_filter:
  "concat (map (\<lambda>x. case f x of Some t \<Rightarrow> [g t] | None \<Rightarrow> []) xs) = map g (List.map_filter f xs)"
  by (induction xs) (auto simp: List.map_filter_simps split: option.splits)

text \<open>\<open>strip\<close> removes white space only, and leaves none at either end.\<close>

lemma rstrip_prefix: "\<exists>r. t = rev (dropWhile P (rev t)) @ r \<and> (\<forall>c \<in> set r. P c)"
proof -
  have "rev t = takeWhile P (rev t) @ dropWhile P (rev t)" by simp
  then have "t = rev (dropWhile P (rev t)) @ rev (takeWhile P (rev t))"
    by (metis rev_append rev_rev_ident)
  moreover have "\<forall>c \<in> set (rev (takeWhile P (rev t))). P c"
    by (auto dest: set_takeWhileD)
  ultimately show ?thesis by blast
qed

lemma strip_decompose:
  "\<exists>l r. s = l @ strip s @ r \<and> (\<forall>c \<in> set l. isspace c) \<and> (\<forall>c \<in> set r. isspace c)"
proof -
  obtain r where r: "dropWhile isspace s = strip s @ r" "\<forall>c \<in> set r. isspace c"
    using rstrip_prefix [of "dropWhile isspace s" isspace] by (auto simp: strip_def)
  have "s = takeWhile isspace s @ dropWhile isspace s" by simp
  with r have "s = takeWhile isspace s @ strip s @ r" by simp
  moreover have "\<forall>c \<in> set (takeWhile isspace s). isspace c" by (auto dest: set_takeWhileD)
  ultimately show ?thesis using r(2) by blast
qed

lemma stripped_strip: "stripped (strip s)"
proof (cases "strip s = []")
  case True
  then show ?thesis by (simp add: stripped_def)
next
  case False
  let ?t = "dropWhile isspace s"
  let ?u = "dropWhile isspace (rev ?t)"
  have u: "?u \<noteq> []" using False by (simp add: strip_def)
  have "\<not> isspace (hd ?u)" using u by (rule hd_dropWhile)
  then have l: "\<not> isspace (last (strip s))" using u by (simp add: strip_def last_rev)
  obtain r where r: "?t = strip s @ r" using rstrip_prefix [of ?t isspace] by (auto simp: strip_def)
  then have "?t \<noteq> []" using False by auto
  then have "\<not> isspace (hd ?t)" by (rule hd_dropWhile)
  moreover have "hd ?t = hd (strip s)" using r False by (metis hd_append2)
  ultimately show ?thesis using l by (simp add: stripped_def)
qed

lemma dropWhile_rev_keep: "xs \<noteq> [] \<Longrightarrow> \<not> P (last xs) \<Longrightarrow> dropWhile P (rev xs) = rev xs"
  by (induction xs rule: rev_induct) auto

lemma strip_stripped: "stripped s \<Longrightarrow> strip s = s"
proof (cases s)
  case Nil
  then show ?thesis by (simp add: strip_def)
next
  case (Cons a list)
  assume "stripped s"
  then have h: "\<not> isspace (hd s)" "\<not> isspace (last s)" using Cons by (auto simp: stripped_def)
  have 1: "dropWhile isspace s = s" using h(1) Cons by simp
  have "s \<noteq> []" using Cons by simp
  then have "dropWhile isspace (rev s) = rev s" using h(2)
    by (rule dropWhile_rev_keep)
  then show ?thesis using 1 by (simp add: strip_def)
qed

lemma str_1: "str (Suc 0) = ''1''"
  by code_simp

lemma str_2: "str (Suc (Suc 0)) = ''2''"
  by code_simp

subsection \<open>Text and metadata\<close>

text \<open>
  C2. For a DOCX (Flowed) document \<open>extract_text\<close> returns the paragraph texts joined
  by one newline each, with the metadata of the core properties; paragraphs
  \<open>["Hello", "World"]\<close> give exactly \<open>"Hello\nWorld"\<close>.
\<close>

theorem flowed_text_is_newline_join:
  assumes "file_type self = ''docx''" and "file_object self = Document d"
  shows "extract_text self =
           Inr (join ''\<newline>'' (map para_text (paragraphs d)), extract_metadata (core_properties d))
       \<and> (map para_text (paragraphs d) = [''Hello'', ''World'']
            \<longrightarrow> fst (projr (extract_text self)) = ''Hello\<newline>World'')"
  using assms by (simp add: extract_text_def)

text \<open>The document of the example, run through the theorem.\<close>

theorem flowed_text_is_newline_join_witness:
  "extract_text \<lparr>file_object = Document \<lparr>paragraphs =
       [\<lparr>para_text = ''Hello'', hyperlink_ids = []\<rparr>, \<lparr>para_text = ''World'', hyperlink_ids = []\<rparr>],
       tables = [], rels = [], core_properties = []\<rparr>, file_path = ''a.docx'', file_type = ''docx''\<rparr>
   = Inr (''Hello\<newline>World'', [(''author'', PStr ''''), (''created'', PStr ''''),
          (''last_modified_by'', PStr ''''), (''title'', PStr '''')])"
  using flowed_text_is_newline_join
    [of "\<lparr>file_object = Document \<lparr>paragraphs =
       [\<lparr>para_text = ''Hello'', hyperlink_ids = []\<rparr>, \<lparr>para_text = ''World'', hyperlink_ids = []\<rparr>],
       tables = [], rels = [], core_properties = []\<rparr>, file_path = ''a.docx'', file_type = ''docx''\<rparr>"
       "\<lparr>paragraphs =
       [\<lparr>para_text = ''Hello'', hyperlink_ids = []\<rparr>, \<lparr>para_text = ''World'', hyperlink_ids = []\<rparr>],
       tables = [], rels = [], core_properties = []\<rparr>"]
  by (simp add: extract_metadata_def getattr_def)

text \<open>
  C3. \<open>_extract_metadata\<close> returns a dict with exactly the four keys, in this order, for
  every properties object; a field the object does not have is the empty string, a field
  it has is the object's value. In particular a missing title gives \<open>title = ""\<close>.
\<close>

theorem metadata_total:
  "map fst (extract_metadata p) = [''author'', ''created'', ''last_modified_by'', ''title'']
   \<and> (\<forall>k \<in> {''author'', ''created'', ''last_modified_by'', ''title''}.
         map_of (extract_metadata p) k
           = Some (case map_of p k of None \<Rightarrow> PStr '''' | Some v \<Rightarrow> v))
   \<and> (map_of p ''title'' = None \<longrightarrow> map_of (extract_metadata p) ''title'' = Some (PStr ''''))"
  by (simp add: extract_metadata_def getattr_def)

text \<open>A properties object without \<open>last_modified_by\<close> and \<open>title\<close>.\<close>

theorem metadata_total_witness:
  "map_of [(''author'', PStr ''Ann''), (''created'', PDatetime 1700000000)] ''title'' = None
   \<and> extract_metadata [(''author'', PStr ''Ann''), (''created'', PDatetime 1700000000)]
       = [(''author'', PStr ''Ann''), (''created'', PDatetime 1700000000),
          (''last_modified_by'', PStr ''''), (''title'', PStr '''')]
   \<and> map_of (extract_metadata [(''author'', PStr ''Ann''), (''created'', PDatetime 1700000000)]) ''title''
       = Some (PStr '''')"
  using metadata_total [of "[(''author'', PStr ''Ann''), (''created'', PDatetime 1700000000)]"]
  by (simp add: extract_metadata_def getattr_def)

subsection \<open>Unsupported kinds\<close>

text \<open>
  C4. When the file type is none of \<open>pdf\<close>, \<open>docx\<close>, \<open>pptx\<close>, each of the four
  operations raises the \<open>ValueError\<close> with the message naming the supported formats.
\<close>

theorem unsupported_kind_rejected:
  assumes "file_type self \<notin> {''pdf'', ''docx'', ''pptx''}"
  shows "extract_text self = Inl unsupported
       \<and> extract_images e self = Inl unsupported
       \<and> extract_tables e self = Inl unsupported
       \<and> extract_links e self = Inl unsupported
       \<and> unsupported = ValueError ''Unsupported file format. Only PDF, DOCX, and PPTX are supported.''"
  using assms
  by (simp add: extract_text_def extract_images_def extract_tables_def extract_links_def
                unsupported_def)

text \<open>A text file.\<close>

theorem unsupported_kind_rejected_witness:
  "file_type \<lparr>file_object = NoFile, file_path = ''notes.txt'', file_type = ''txt''\<rparr>
     \<notin> {''pdf'', ''docx'', ''pptx''}
   \<and> extract_text \<lparr>file_object = NoFile, file_path = ''notes.txt'', file_type = ''txt''\<rparr>
       = Inl (ValueError ''Unsupported file format. Only PDF, DOCX, and PPTX are supported.'')
   \<and> extract_links \<lparr>fitz_open = \<lambda>p. None, pdfplumber_open = \<lambda>p. None, Image_open = \<lambda>b. None\<rparr>
         \<lparr>file_object = NoFile, file_path = ''notes.txt'', file_type = ''txt''\<rparr>
       = Inl (ValueError ''Unsupported file format. Only PDF, DOCX, and PPTX are supported.'')"
  using unsupported_kind_rejected
    [of "\<lparr>file_object = NoFile, file_path = ''notes.txt'', file_type = ''txt''\<rparr>"
        "\<lparr>fitz_open = \<lambda>p. None, pdfplumber_open = \<lambda>p. None, Image_open = \<lambda>b. None\<rparr>"]
  by simp

subsection \<open>Tables\<close>

lemma stripped_rows_cells: "list_all (list_all stripped_cell) (stripped_rows t)"
  by (simp add: stripped_rows_def list_all_iff stripped_cell_def stripped_strip)

lemma docx_tables:
  assumes "file_type self = ''docx''" and "file_object self = Document d"
  shows "extract_tables e self = Inr (map stripped_rows (tables d))"
  using assms by (simp add: extract_tables_def stripped_rows_def extract_table_row_def)

lemma pptx_tables:
  assumes "file_type self = ''pptx''" and "file_object self = Presentation p"
  shows "extract_tables e self = Inr (map stripped_rows (slide_tables p))"
proof -
  let ?f = "\<lambda>sh. case shape_table sh of Some t \<Rightarrow> [stripped_rows t] | None \<Rightarrow> []"
  let ?g = "\<lambda>sh tbls. case shape_table sh of
              Some t \<Rightarrow> tbls @ [[extract_table_row row. row \<leftarrow> rows t]] | None \<Rightarrow> tbls"
  have g: "\<And>sh tbls. ?g sh tbls = tbls @ ?f sh"
    by (simp add: stripped_rows_def extract_table_row_def split: option.splits)
  have "fold (\<lambda>sl. fold ?g (shapes sl)) (slides p) [] = [] @ concat (map ?f (concat (map shapes (slides p))))"
    using g by (rule fold_fold_append)
  then have "fold (\<lambda>sl. fold ?g (shapes sl)) (slides p) [] = map stripped_rows (slide_tables p)"
    by (simp add: slide_tables_def concat_option_map_filter)
  then show ?thesis using assms by (simp add: extract_tables_def)
qed

lemma pdf_tables:
  assumes "file_type self = ''pdf''" and "pdfplumber_open e (file_path self) = Some pdf"
  shows "extract_tables e self = Inr (concat (map page_tables (plumber_pages pdf)))"
proof -
  have "fold (\<lambda>page tbls. tbls @ (if page_tables page = [] then [] else page_tables page))
          (plumber_pages pdf) [] = [] @ concat (map page_tables (plumber_pages pdf))"
    by (rule fold_append) simp
  then show ?thesis using assms by (simp add: extract_tables_def)
qed

text \<open>
  C1, as the claim states it, fails for a PDF (Paged) document: the tables that
  pdfplumber detects are returned as they are. A page with the table \<open>[[" 42", None]]\<close>
  gives that table, whose cells are an unstripped string and \<open>None\<close>.
\<close>

theorem paged_cells_not_stripped:
  "extract_tables
     \<lparr>fitz_open = \<lambda>path. None,
      pdfplumber_open = \<lambda>path. Some \<lparr>plumber_pages = [\<lparr>page_tables = [[[PStr '' 42'', PNone]]]\<rparr>]\<rparr>,
      Image_open = \<lambda>blob. None\<rparr>
     \<lparr>file_object = PdfReader \<lparr>pdf_pages = [], metadata = []\<rparr>, file_path = ''a.pdf'',
      file_type = ''pdf''\<rparr>
   = Inr [[[PStr '' 42'', PNone]]]
   \<and> \<not> all_cells_stripped [[[PStr '' 42'', PNone]]]"
  by (simp add: extract_tables_def all_cells_stripped_def stripped_cell_def stripped_def isspace_def)

text \<open>
  C1, amended. For a DOCX (Flowed) document the result has one table per table of the
  document, and for a PPTX (Slides) document one per shape that is a table, in slide
  and shape order; every cell is the cell's text as a string with the white space at
  both ends removed, and nothing else is done to it. For a PDF (Paged) document the
  result is the tables pdfplumber detects, page by page, unchanged.
\<close>

theorem table_cells_by_kind:
  "(file_type self = ''docx'' \<and> file_object self = Document d \<longrightarrow>
      extract_tables e self = Inr (map stripped_rows (tables d))
      \<and> all_cells_stripped (map stripped_rows (tables d)))
   \<and> (file_type self = ''pptx'' \<and> file_object self = Presentation p \<longrightarrow>
      extract_tables e self = Inr (map stripped_rows (slide_tables p))
      \<and> all_cells_stripped (map stripped_rows (slide_tables p)))
   \<and> (file_type self = ''pdf'' \<and> pdfplumber_open e (file_path self) = Some pdf \<longrightarrow>
      extract_tables e self = Inr (concat (map page_tables (plumber_pages pdf))))"
  by (simp add: docx_tables pptx_tables pdf_tables all_cells_stripped_def list_all_iff
        stripped_rows_cells [unfolded list_all_iff])

text \<open>One document of each kind; the numeric-looking cells stay strings.\<close>

theorem table_cells_by_kind_witness:
  "extract_tables \<lparr>fitz_open = \<lambda>path. None, pdfplumber_open = \<lambda>path. None, Image_open = \<lambda>blob. None\<rparr>
     \<lparr>file_object = Document \<lparr>paragraphs = [],
        tables = [\<lparr>rows = [\<lparr>cells = [\<lparr>cell_text = '' Qty ''\<rparr>]\<rparr>, \<lparr>cells = [\<lparr>cell_text = '' 42''\<rparr>]\<rparr>]\<rparr>],
        rels = [], core_properties = []\<rparr>,
      file_path = ''a.docx'', file_type = ''docx''\<rparr>
   = Inr [[[PStr ''Qty''], [PStr ''42'']]]
   \<and> extract_tables \<lparr>fitz_open = \<lambda>path. None, pdfplumber_open = \<lambda>path. None, Image_open = \<lambda>blob. None\<rparr>
     \<lparr>file_object = Presentation \<lparr>slides = [\<lparr>shapes = [\<lparr>shape_text = None, shape_image = None,
        shape_table = Some \<lparr>rows = [\<lparr>cells = [\<lparr>cell_text = ''7 ''\<rparr>]\<rparr>]\<rparr>,
        shape_hyperlink = None, shape_text_frame = None\<rparr>]\<rparr>], pptx_core_properties = []\<rparr>,
      file_path = ''a.pptx'', file_type = ''pptx''\<rparr>
   = Inr [[[PStr ''7'']]]
   \<and> extract_tables
     \<lparr>fitz_open = \<lambda>path. None,
      pdfplumber_open = \<lambda>path. Some \<lparr>plumber_pages = [\<lparr>page_tables = [[[PStr ''a'', PNone]]]\<rparr>]\<rparr>,
      Image_open = \<lambda>blob. None\<rparr>
     \<lparr>file_object = NoFile, file_path = ''a.pdf'', file_type = ''pdf''\<rparr>
   = Inr [[[PStr ''a'', PNone]]]"
  using
    table_cells_by_kind
      [of "\<lparr>file_object = Document \<lparr>paragraphs = [],
        tables = [\<lparr>rows = [\<lparr>cells = [\<lparr>cell_text = '' Qty ''\<rparr>]\<rparr>, \<lparr>cells = [\<lparr>cell_text = '' 42''\<rparr>]\<rparr>]\<rparr>],
        rels = [], core_properties = []\<rparr>,
          file_path = ''a.docx'', file_type = ''docx''\<rparr>"
          "\<lparr>paragraphs = [],
        tables = [\<lparr>rows = [\<lparr>cells = [\<lparr>cell_text = '' Qty ''\<rparr>]\<rparr>, \<lparr>cells = [\<lparr>cell_text = '' 42''\<rparr>]\<rparr>]\<rparr>],
        rels = [], core_properties = []\<rparr>"
          "\<lparr>fitz_open = \<lambda>path. None, pdfplumber_open = \<lambda>path. None, Image_open = \<lambda>blob. None\<rparr>"]
    table_cells_by_kind
      [of "\<lparr>file_object = Presentation \<lparr>slides = [\<lparr>shapes = [\<lparr>shape_text = None, shape_image = None,
        shape_table = Some \<lparr>rows = [\<lparr>cells = [\<lparr>cell_text = ''7 ''\<rparr>]\<rparr>]\<rparr>,
        shape_hyperlink = None, shape_text_frame = None\<rparr>]\<rparr>], pptx_core_properties = []\<rparr>,
          file_path = ''a.pptx'', file_type = ''pptx''\<rparr>"
          _
          "\<lparr>fitz_open = \<lambda>path. None, pdfplumber_open = \<lambda>path. None, Image_open = \<lambda>blob. None\<rparr>"
          "\<lparr>slides = [\<lparr>shapes = [\<lparr>shape_text = None, shape_image = None,
        shape_table = Some \<lparr>rows = [\<lparr>cells = [\<lparr>cell_text = ''7 ''\<rparr>]\<rparr>]\<rparr>,
        shape_hyperlink = None, shape_text_frame = None\<rparr>]\<rparr>], pptx_core_properties = []\<rparr>"]
    table_cells_by_kind
      [of "\<lparr>file_object = NoFile, file_path = ''a.pdf'', file_type = ''pdf''\<rparr>"
          _
          "\<lparr>fitz_open = \<lambda>path. None,
      pdfplumber_open = \<lambda>path. Some \<lparr>plumber_pages = [\<lparr>page_tables = [[[PStr ''a'', PNone]]]\<rparr>]\<rparr>,
      Image_open = \<lambda>blob. None\<rparr>"
          _
          "\<lparr>plumber_pages = [\<lparr>page_tables = [[[PStr ''a'', PNone]]]\<rparr>]\<rparr>"]
  by (simp add: stripped_rows_def slide_tables_def strip_def isspace_def List.map_filter_simps)

subsection \<open>Links\<close>

lemma pdf_links:
  assumes "file_type self = ''pdf''" and "fitz_open e (file_path self) = Some doc"
  shows "extract_links e self = Inr (concat (map (page_links doc) [0 ..< length (fitz_pages doc)]))"
proof -
  have "fold (\<lambda>page_num links. links @ extract_pdf_link (fitz_pages doc ! page_num) (page_num + 1))
          [0 ..< length (fitz_pages doc)] []
        = [] @ concat (map (page_links doc) [0 ..< length (fitz_pages doc)])"
    by (rule fold_append) (simp add: page_links_def extract_pdf_link_def dict_get_def)
  then show ?thesis using assms by (simp add: extract_links_def)
qed

text \<open>
  C5. For a PDF (Paged) document that PyMuPDF opens, \<open>extract_links\<close> returns the links
  of the pages in page order: for each page one link per entry of the page's link list,
  with the entry's URI, or the empty string when it has none, and the page's 1-based
  number. A page without entries contributes nothing.
\<close>

theorem paged_links:
  assumes "file_type self = ''pdf''" and "fitz_open e (file_path self) = Some doc"
  shows "extract_links e self = Inr (concat (map (page_links doc) [0 ..< length (fitz_pages doc)]))
       \<and> (\<forall>i < length (fitz_pages doc).
            length (page_links doc i) = length (get_links (fitz_pages doc ! i))
            \<and> (get_links (fitz_pages doc ! i) = [] \<longrightarrow> page_links doc i = [])
            \<and> (\<forall>l \<in> set (page_links doc i). map_of l ''page_number'' = Some (PInt (int i + 1))))"
  using pdf_links [OF assms] by (auto simp: page_links_def)

text \<open>
  The two-page document of the specification, and the same document with an entry
  without URI on page 2.
\<close>

theorem paged_links_witness:
  "extract_links
     \<lparr>fitz_open = \<lambda>path. if path = ''two.pdf''
         then Some \<lparr>fitz_pages = [\<lparr>get_images = [], get_links = []\<rparr>,
                                  \<lparr>get_images = [], get_links = [[(''kind'', PInt 2), (''uri'', PStr ''https://x'')]]\<rparr>],
                    extract_image = []\<rparr>
         else None,
      pdfplumber_open = \<lambda>path. None, Image_open = \<lambda>blob. None\<rparr>
     \<lparr>file_object = PdfReader \<lparr>pdf_pages = [\<lparr>page_text = None\<rparr>, \<lparr>page_text = None\<rparr>], metadata = []\<rparr>,
      file_path = ''two.pdf'', file_type = ''pdf''\<rparr>
   = Inr [[(''url'', PStr ''https://x''), (''page_number'', PInt 2)]]
   \<and> extract_links
     \<lparr>fitz_open = \<lambda>path. if path = ''two.pdf''
         then Some \<lparr>fitz_pages = [\<lparr>get_images = [], get_links = []\<rparr>,
                                  \<lparr>get_images = [], get_links = [[(''kind'', PInt 1), (''page'', PInt 0)]]\<rparr>],
                    extract_image = []\<rparr>
         else None,
      pdfplumber_open = \<lambda>path. None, Image_open = \<lambda>blob. None\<rparr>
     \<lparr>file_object = PdfReader \<lparr>pdf_pages = [\<lparr>page_text = None\<rparr>, \<lparr>page_text = None\<rparr>], metadata = []\<rparr>,
      file_path = ''two.pdf'', file_type = ''pdf''\<rparr>
   = Inr [[(''url'', PStr ''''), (''page_number'', PInt 2)]]"
  using
    paged_links
      [of "\<lparr>file_object = PdfReader \<lparr>pdf_pages = [\<lparr>page_text = None\<rparr>, \<lparr>page_text = None\<rparr>], metadata = []\<rparr>,
        file_path = ''two.pdf'', file_type = ''pdf''\<rparr>"
          "\<lparr>fitz_open = \<lambda>path. if path = ''two.pdf''
           then Some \<lparr>fitz_pages = [\<lparr>get_images = [], get_links = []\<rparr>,
                                    \<lparr>get_images = [], get_links = [[(''kind'', PInt 2), (''uri'', PStr ''https://x'')]]\<rparr>],
                      extract_image = []\<rparr>
           else None,
        pdfplumber_open = \<lambda>path. None, Image_open = \<lambda>blob. None\<rparr>"
          "\<lparr>fitz_pages = [\<lparr>get_images = [], get_links = []\<rparr>,
                                    \<lparr>get_images = [], get_links = [[(''kind'', PInt 2), (''uri'', PStr ''https://x'')]]\<rparr>],
                      extract_image = []\<rparr>"]
    paged_links
      [of "\<lparr>file_object = PdfReader \<lparr>pdf_pages = [\<lparr>page_text = None\<rparr>, \<lparr>page_text = None\<rparr>], metadata = []\<rparr>,
        file_path = ''two.pdf'', file_type = ''pdf''\<rparr>"
          "\<lparr>fitz_open = \<lambda>path. if path = ''two.pdf''
           then Some \<lparr>fitz_pages = [\<lparr>get_images = [], get_links = []\<rparr>,
                                    \<lparr>get_images = [], get_links = [[(''kind'', PInt 1), (''page'', PInt 0)]]\<rparr>],
                      extract_image = []\<rparr>
           else None,
        pdfplumber_open = \<lambda>path. None, Image_open = \<lambda>blob. None\<rparr>"
          "\<lparr>fitz_pages = [\<lparr>get_images = [], get_links = []\<rparr>,
                                    \<lparr>get_images = [], get_links = [[(''kind'', PInt 1), (''page'', PInt 0)]]\<rparr>],
                      extract_image = []\<rparr>"]
  by (simp add: page_links_def upt_rec)








subsection \<open>Repeated calls\<close>









section \<open>Properties of the relational sink\<close>

subsection \<open>Column names\<close>

lemma sanitize_spec: "sanitize col = spec_sanitize (strip col)"
  by (simp add: sanitize_def spec_sanitize_def replace_def)

lemma for_each_sanitize:
  "for_each (\<lambda>col acc. case col of PStr c \<Rightarrow> Inr (acc @ [sanitize c])
                                  | _ \<Rightarrow> Inl (AttributeError ''strip''))
     (map PStr names) acc = Inr (acc @ map sanitize names)"
  by (induction names arbitrary: acc) simp_all

lemma sanitized_columns_strings: "sanitized_columns (map PStr names) = Inr (map sanitize names)"
  by (simp add: sanitized_columns_def for_each_sanitize)

lemma string_cells_map: "string_cells header \<Longrightarrow> \<exists>names. header = map PStr names"
  by (induction header) (auto simp: string_cells_def Cons_eq_map_conv split: pyval.splits)

lemma for_each_sanitize_error:
  "for_each (\<lambda>col acc. case col of PStr c \<Rightarrow> Inr (acc @ [sanitize c])
                                  | _ \<Rightarrow> Inl (AttributeError ''strip''))
     header acc = Inl e \<Longrightarrow> e = AttributeError ''strip''"
  by (induction header arbitrary: acc) (auto split: pyval.splits)

lemma sanitized_columns_error: "sanitized_columns header = Inl e \<Longrightarrow> e = AttributeError ''strip''"
  unfolding sanitized_columns_def by (rule for_each_sanitize_error)

text \<open>The tables of a DOCX or PPTX document have strings in every row.\<close>

lemma string_headers_stripped_rows: "string_headers (map stripped_rows ts)"
  by (auto simp: string_headers_def string_cells_def stripped_rows_def list_all_iff
           split: list.splits)

subsection \<open>The counter and the calls of one table\<close>

lemma history_insert_rows:
  "history (insert_rows srv tname cols data s)
     = history s @ map (\<lambda>row. Execute (insert_query tname cols row) row) data"
  by (induction data arbitrary: s) (simp_all add: cursor_execute_def split: option.splits)

lemma table_name_insert_rows: "table_name (insert_rows srv tname cols data s) = table_name s"
  by (induction data arbitrary: s) (simp_all add: cursor_execute_def split: option.splits)

lemma table_name_add_missing_columns:
  "table_name (snd (add_missing_columns srv tname existing cols s)) = table_name s"
  by (induction cols arbitrary: s) (simp_all add: cursor_execute_def split: option.splits)

lemma table_name_check_create_table:
  "table_name (snd (check_create_table srv tname cols s)) = table_name s"
  by (simp add: check_create_table_def cursor_execute_def cursor_fetchone_def cursor_fetchall_def
        table_name_add_missing_columns split: option.splits sum.splits)

lemma table_name_create_tables: "table_name (snd (create_tables srv s)) = table_name s"
  by (simp add: create_tables_def and_then_def raising_def cursor_execute_def conn_commit_def
        split: option.splits)

lemma save_table_strings:
  "save_table srv (map PStr names # data) s =
     (let tname = ''extracted_table_'' @ str (table_name s);
          s1 = s\<lparr>table_name := table_name s + 1\<rparr>
      in case check_create_table srv tname (map sanitize names) s1 of
           (Some err, s2) \<Rightarrow> (None, s2\<lparr>stdout := stdout s2 @ [Error_creating tname err]\<rparr>)
         | (None, s2) \<Rightarrow> (None, insert_rows srv tname (map sanitize names) data s2))"
  by (simp add: save_table_def sanitized_columns_strings)

lemma save_table_empty: "save_table srv [] s = (None, s)"
  by (simp add: save_table_def)

lemma save_table_no_exception:
  assumes "tbl = [] \<or> string_cells (hd tbl)"
  shows "fst (save_table srv tbl s) = None"
proof (cases tbl)
  case Nil
  then show ?thesis by (simp add: save_table_def)
next
  case (Cons header data)
  with assms obtain names where "header = map PStr names"
    using string_cells_map by auto
  with Cons show ?thesis
    by (simp add: save_table_strings Let_def split: prod.splits option.splits)
qed

lemma save_table_exception_kind:
  "fst (save_table srv tbl s) = None \<or> fst (save_table srv tbl s) = Some (AttributeError ''strip'')"
proof (cases tbl)
  case Nil
  then show ?thesis by (simp add: save_table_def)
next
  case (Cons header data)
  show ?thesis
  proof (cases "sanitized_columns header")
    case (Inl e)
    then have "e = AttributeError ''strip''" by (rule sanitized_columns_error)
    with Inl Cons show ?thesis by (simp add: save_table_def)
  next
    case (Inr cols)
    with Cons show ?thesis
      by (simp add: save_table_def Let_def split: prod.splits option.splits)
  qed
qed

lemma save_tables_exception_kind:
  "fst (save_tables srv tbls s) = None
   \<or> fst (save_tables srv tbls s) = Some (AttributeError ''strip'')"
proof (induction tbls arbitrary: s)
  case Nil
  then show ?case by simp
next
  case (Cons tbl tbls)
  obtain r s' where s': "save_table srv tbl s = (r, s')" by (cases "save_table srv tbl s")
  show ?case
  proof (cases r)
    case None
    with s' Cons.IH [of s'] show ?thesis by simp
  next
    case (Some e)
    with s' save_table_exception_kind [of srv tbl s] show ?thesis by simp
  qed
qed

lemma save_table_counter:
  assumes "tbl = [] \<or> string_cells (hd tbl)"
  shows "table_name (snd (save_table srv tbl s)) = table_name s + (if tbl = [] then 0 else 1)"
proof (cases tbl)
  case Nil
  then show ?thesis by (simp add: save_table_def)
next
  case (Cons header data)
  with assms obtain names where n: "header = map PStr names"
    using string_cells_map by auto
  let ?tname = "''extracted_table_'' @ str (table_name s)"
  let ?s1 = "s\<lparr>table_name := table_name s + 1\<rparr>"
  obtain r s2 where c: "check_create_table srv ?tname (map sanitize names) ?s1 = (r, s2)"
    by (cases "check_create_table srv ?tname (map sanitize names) ?s1")
  then have "table_name s2 = table_name s + 1"
    using table_name_check_create_table [of srv ?tname "map sanitize names" ?s1] by simp
  with c Cons n show ?thesis
    by (simp add: save_table_strings Let_def table_name_insert_rows split: option.splits)
qed

lemma save_tables_no_exception:
  "string_headers tbls \<Longrightarrow> fst (save_tables srv tbls s) = None"
proof (induction tbls arbitrary: s)
  case Nil
  then show ?case by simp
next
  case (Cons tbl tbls)
  then have h: "tbl = [] \<or> string_cells (hd tbl)" and t: "string_headers tbls"
    by (auto simp: string_headers_def split: list.splits)
  obtain s' where "save_table srv tbl s = (None, s')"
    using save_table_no_exception [OF h, of srv s] by (cases "save_table srv tbl s") auto
  with Cons.IH [OF t] show ?case by simp
qed

lemma save_tables_counter:
  "string_headers tbls \<Longrightarrow>
     table_name (snd (save_tables srv tbls s)) = table_name s + length (filter (\<lambda>t. t \<noteq> []) tbls)"
proof (induction tbls arbitrary: s)
  case Nil
  then show ?case by simp
next
  case (Cons tbl tbls)
  then have h: "tbl = [] \<or> string_cells (hd tbl)" and t: "string_headers tbls"
    by (auto simp: string_headers_def split: list.splits)
  obtain s' where s': "save_table srv tbl s = (None, s')"
    using save_table_no_exception [OF h, of srv s] by (cases "save_table srv tbl s") auto
  then have "table_name s' = table_name s + (if tbl = [] then 0 else 1)"
    using save_table_counter [OF h, of srv s] by simp
  with Cons.IH [OF t, of s'] s' show ?case by simp
qed

lemma save_table_monotone: "table_name s \<le> table_name (snd (save_table srv tbl s))"
proof (cases tbl)
  case Nil
  then show ?thesis by (simp add: save_table_def)
next
  case (Cons header data)
  show ?thesis
  proof (cases "sanitized_columns header")
    case (Inl e)
    with Cons show ?thesis by (simp add: save_table_def)
  next
    case (Inr cols)
    let ?tname = "''extracted_table_'' @ str (table_name s)"
    let ?s1 = "s\<lparr>table_name := table_name s + 1\<rparr>"
    obtain r s2 where c: "check_create_table srv ?tname cols ?s1 = (r, s2)"
      by (cases "check_create_table srv ?tname cols ?s1")
    then have "table_name s2 = table_name s + 1"
      using table_name_check_create_table [of srv ?tname cols ?s1] by simp
    with c Cons Inr show ?thesis
      by (simp add: save_table_def Let_def table_name_insert_rows split: option.splits)
  qed
qed

lemma save_tables_monotone: "table_name s \<le> table_name (snd (save_tables srv tbls s))"
proof (induction tbls arbitrary: s)
  case Nil
  then show ?case by simp
next
  case (Cons tbl tbls)
  obtain r s' where s': "save_table srv tbl s = (r, s')" by (cases "save_table srv tbl s")
  then have "table_name s \<le> table_name s'" using save_table_monotone [of s srv tbl] by simp
  with Cons.IH [of s'] s' show ?case by (cases r) (auto intro: order_trans)
qed

lemma save_tables_skip_empty:
  "save_tables srv tbls s = save_tables srv (filter (\<lambda>t. t \<noteq> []) tbls) s"
proof (induction tbls arbitrary: s)
  case Nil
  then show ?case by simp
next
  case (Cons tbl tbls)
  show ?case
  proof (cases "tbl = []")
    case True
    with Cons.IH show ?thesis by (simp add: save_table_empty)
  next
    case False
    with Cons.IH show ?thesis by (simp split: prod.splits option.splits)
  qed
qed

subsection \<open>A server that never fails and knows no table\<close>

lemma check_create_table_quiet:
  assumes "\<forall>h q ps. execute srv h q ps = None" and "\<forall>h. fetchone srv h = Inr None"
  shows "check_create_table srv tname cols s =
           (None, s\<lparr>history := history s @ [Execute (show_tables_query tname) [], Fetchone,
                                             Execute (create_table_query tname cols) []]\<rparr>)"
  using assms by (simp add: check_create_table_def cursor_execute_def cursor_fetchone_def)

lemma insert_rows_quiet:
  assumes "\<forall>h q ps. execute srv h q ps = None"
  shows "insert_rows srv tname cols data s =
           s\<lparr>history := history s @ map (\<lambda>row. Execute (insert_query tname cols row) row) data\<rparr>"
  using assms by (induction data arbitrary: s) (simp_all add: cursor_execute_def)

lemma save_table_quiet:
  assumes "\<forall>h q ps. execute srv h q ps = None" and "\<forall>h. fetchone srv h = Inr None"
  shows "save_table srv (map PStr names # data) s =
           (None, s\<lparr>table_name := table_name s + 1,
                     history := history s
                       @ [Execute (show_tables_query (''extracted_table_'' @ str (table_name s))) [],
                          Fetchone,
                          Execute (create_table_query (''extracted_table_'' @ str (table_name s))
                                     (map sanitize names)) []]
                       @ map (\<lambda>row. Execute (insert_query (''extracted_table_'' @ str (table_name s))
                                                (map sanitize names) row) row) data\<rparr>)"
proof -
  let ?tname = "''extracted_table_'' @ str (table_name s)"
  let ?s1 = "s\<lparr>table_name := table_name s + 1\<rparr>"
  let ?s2 = "?s1\<lparr>history := history ?s1 @ [Execute (show_tables_query ?tname) [], Fetchone,
                 Execute (create_table_query ?tname (map sanitize names)) []]\<rparr>"
  have c: "check_create_table srv ?tname (map sanitize names) ?s1 = (None, ?s2)"
    using assms by (rule check_create_table_quiet)
  have i: "insert_rows srv ?tname (map sanitize names) data ?s2
             = ?s2\<lparr>history := history ?s2
                 @ map (\<lambda>row. Execute (insert_query ?tname (map sanitize names) row) row) data\<rparr>"
    using assms(1) by (rule insert_rows_quiet)
  have "save_table srv (map PStr names # data) s
          = (None, insert_rows srv ?tname (map sanitize names) data ?s2)"
    unfolding save_table_strings Let_def c by simp
  also have "insert_rows srv ?tname (map sanitize names) data ?s2 =
      s\<lparr>table_name := table_name s + 1,
        history := history s
          @ [Execute (show_tables_query ?tname) [], Fetchone,
             Execute (create_table_query ?tname (map sanitize names)) []]
          @ map (\<lambda>row. Execute (insert_query ?tname (map sanitize names) row) row) data\<rparr>"
    unfolding i by simp
  finally show ?thesis .
qed

subsection \<open>Tables, names and columns\<close>

text \<open>
  C7, as the claim states it, fails on the column names: the code strips each header
  cell before it replaces. The header cell \<open>" a"\<close> gives the column \<open>a\<close>, where
  replacing alone gives \<open>_a\<close>.
\<close>

theorem header_not_only_replaced:
  "sanitized_columns [PStr '' a''] = Inr [''a'']
   \<and> map spec_sanitize ['' a''] = [''_a'']
   \<and> sanitized_columns [PStr '' a''] \<noteq> Inr (map spec_sanitize ['' a''])"
  by (simp add: sanitized_columns_def sanitize_def replace_def strip_def isspace_def spec_sanitize_def)

text \<open>
  C7, amended. For an extracted table with at least one row whose row 0 has only
  strings, when no statement fails and the server reports no table of the name, \<open>save\<close>
  takes the name \<open>extracted_table_N\<close> with \<open>N\<close> the counter and adds one to the counter,
  looks the name up, creates the table with one column per cell of row 0 (the cell
  stripped of white space at both ends, then spaces, hyphens and periods replaced by
  underscores), and inserts each later row, in order, against that column list; row 0
  is not inserted. The counter never decreases while tables are saved, it advances by
  one for each table with a row when row 0 of every such table has only strings, and
  creating a sink for another document leaves it as it is.
\<close>

theorem table_created_from_header:
  "((\<forall>h q ps. execute srv h q ps = None) \<and> (\<forall>h. fetchone srv h = Inr None) \<longrightarrow>
      save_table srv (map PStr names # data) s =
        (let tname = ''extracted_table_'' @ str (table_name s);
             cols = map (\<lambda>name. spec_sanitize (strip name)) names
         in (None, s\<lparr>table_name := table_name s + 1,
                      history := history s
                        @ [Execute (show_tables_query tname) [], Fetchone,
                           Execute (create_table_query tname cols) []]
                        @ map (\<lambda>row. Execute (insert_query tname cols row) row) data\<rparr>)))
   \<and> table_name s \<le> table_name (snd (save_tables srv tbls s))
   \<and> (string_headers tbls \<longrightarrow>
        table_name (snd (save_tables srv tbls s))
          = table_name s + length (filter (\<lambda>t. t \<noteq> []) tbls))
   \<and> table_name (snd (create_tables srv s)) = table_name s"
proof -
  have m: "map (\<lambda>name. spec_sanitize (strip name)) names = map sanitize names"
    by (simp add: sanitize_spec)
  have "(\<forall>h q ps. execute srv h q ps = None) \<and> (\<forall>h. fetchone srv h = Inr None) \<longrightarrow>
      save_table srv (map PStr names # data) s =
        (let tname = ''extracted_table_'' @ str (table_name s);
             cols = map (\<lambda>name. spec_sanitize (strip name)) names
         in (None, s\<lparr>table_name := table_name s + 1,
                      history := history s
                        @ [Execute (show_tables_query tname) [], Fetchone,
                           Execute (create_table_query tname cols) []]
                        @ map (\<lambda>row. Execute (insert_query tname cols row) row) data\<rparr>))"
    unfolding Let_def m using save_table_quiet [of srv names data s] by blast
  moreover have "table_name s \<le> table_name (snd (save_tables srv tbls s))"
    by (rule save_tables_monotone)
  moreover have "string_headers tbls \<longrightarrow>
        table_name (snd (save_tables srv tbls s))
          = table_name s + length (filter (\<lambda>t. t \<noteq> []) tbls)"
    by (simp add: save_tables_counter)
  moreover have "table_name (snd (create_tables srv s)) = table_name s"
    by (rule table_name_create_tables)
  ultimately show ?thesis by blast
qed

text \<open>A table with a padded header cell, on a fresh counter and an empty database.\<close>

theorem table_created_from_header_witness:
  "(\<forall>h q ps. execute \<lparr>execute = \<lambda>h q ps. None, fetchone = \<lambda>h. Inr None,
                        fetchall = \<lambda>h. Inr [], commit = \<lambda>h. None\<rparr> h q ps = None)
   \<and> string_headers [[[PStr '' Unit Price'', PStr ''No.''], [PStr ''3'', PStr ''x'']]]
   \<and> save_table \<lparr>execute = \<lambda>h q ps. None, fetchone = \<lambda>h. Inr None,
                  fetchall = \<lambda>h. Inr [], commit = \<lambda>h. None\<rparr>
        [[PStr '' Unit Price'', PStr ''No.''], [PStr ''3'', PStr ''x'']]
        \<lparr>table_name = 1, history = [], stdout = []\<rparr>
     = (None,
        \<lparr>table_name = 2,
         history =
           [Execute (''SHOW TABLES LIKE '' @ quote @ ''extracted_table_1'' @ quote) [],
            Fetchone,
            Execute ''CREATE TABLE extracted_table_1 (id INT AUTO_INCREMENT PRIMARY KEY, `Unit_Price` TEXT, `No_` TEXT)'' [],
            Execute ''INSERT INTO extracted_table_1 (`Unit_Price`, `No_`) VALUES (%s, %s)''
              [PStr ''3'', PStr ''x'']],
         stdout = []\<rparr>)
   \<and> table_name (snd (save_tables \<lparr>execute = \<lambda>h q ps. None, fetchone = \<lambda>h. Inr None,
                  fetchall = \<lambda>h. Inr [], commit = \<lambda>h. None\<rparr>
        [[[PStr '' Unit Price'', PStr ''No.''], [PStr ''3'', PStr ''x'']]]
        \<lparr>table_name = 1, history = [], stdout = []\<rparr>)) = 2"
  using table_created_from_header
    [of "\<lparr>execute = \<lambda>h q ps. None, fetchone = \<lambda>h. Inr None,
                  fetchall = \<lambda>h. Inr [], commit = \<lambda>h. None\<rparr>"
        "['' Unit Price'', ''No.'']" "[[PStr ''3'', PStr ''x'']]"
        "\<lparr>table_name = 1, history = [], stdout = []\<rparr>"
        "[[[PStr '' Unit Price'', PStr ''No.''], [PStr ''3'', PStr ''x'']]]"]
  by (simp add: str_1 spec_sanitize_def strip_def isspace_def show_tables_query_def
        create_table_query_def insert_query_def backtick_def string_headers_def string_cells_def)

subsection \<open>Empty tables\<close>

text \<open>
  C10. An extracted table without rows is skipped: the state of the sink after it is
  the state before it, so no call is made, nothing is printed and the counter keeps its
  value; saving a list of tables is saving its tables that have rows.
\<close>

theorem empty_tables_skipped:
  "save_table srv [] s = (None, s)
   \<and> save_tables srv ([] # rest) s = save_tables srv rest s
   \<and> save_tables srv tbls s = save_tables srv (filter (\<lambda>t. t \<noteq> []) tbls) s"
  using save_tables_skip_empty [of srv tbls s] by (simp add: save_table_empty)

subsection \<open>Failures of the server\<close>

text \<open>
  The two \<open>try\<close> blocks, whatever the server answers. The loop over the tables is never
  left by an error of the server: the only exception it can raise is the
  \<open>AttributeError\<close> of a header cell that is not a string, and with string headers it
  raises none and visits every table with a row. When the first \<open>try\<close> block of a table
  ends in an error, the error is printed and the loop goes on with the next table. When
  the insertion of a row fails, the error is printed with the row and the loop goes on
  with the next row; every row after row 0 is sent to the server, whichever of them fail.
\<close>

lemma server_failures_skipped:
  "(fst (save_tables srv tbls s) = None
      \<or> fst (save_tables srv tbls s) = Some (AttributeError ''strip''))
   \<and> (string_headers tbls \<longrightarrow>
        fst (save_tables srv tbls s) = None
        \<and> table_name (snd (save_tables srv tbls s))
            = table_name s + length (filter (\<lambda>t. t \<noteq> []) tbls))
   \<and> (sanitized_columns header = Inr columns
       \<and> check_create_table srv (''extracted_table_'' @ str (table_name s)) columns
           (s\<lparr>table_name := table_name s + 1\<rparr>) = (Some err, s2) \<longrightarrow>
       save_tables srv ((header # data) # rest) s
         = save_tables srv rest
             (s2\<lparr>stdout := stdout s2
                   @ [Error_creating (''extracted_table_'' @ str (table_name s)) err]\<rparr>))
   \<and> (execute srv (history sr) (insert_query tname cols row) row = Some rerr \<longrightarrow>
       insert_rows srv tname cols (row # later) sr
         = insert_rows srv tname cols later
             (sr\<lparr>history := history sr @ [Execute (insert_query tname cols row) row],
                 stdout := stdout sr @ [Error_inserting tname rerr row]\<rparr>))
   \<and> history (insert_rows srv tname cols later sr)
       = history sr @ map (\<lambda>row. Execute (insert_query tname cols row) row) later"
proof -
  have "fst (save_tables srv tbls s) = None
      \<or> fst (save_tables srv tbls s) = Some (AttributeError ''strip'')"
    by (rule save_tables_exception_kind)
  moreover have "string_headers tbls \<longrightarrow>
        fst (save_tables srv tbls s) = None
        \<and> table_name (snd (save_tables srv tbls s))
            = table_name s + length (filter (\<lambda>t. t \<noteq> []) tbls)"
    by (simp add: save_tables_no_exception save_tables_counter)
  moreover have "sanitized_columns header = Inr columns
       \<and> check_create_table srv (''extracted_table_'' @ str (table_name s)) columns
           (s\<lparr>table_name := table_name s + 1\<rparr>) = (Some err, s2) \<longrightarrow>
       save_tables srv ((header # data) # rest) s
         = save_tables srv rest
             (s2\<lparr>stdout := stdout s2
                   @ [Error_creating (''extracted_table_'' @ str (table_name s)) err]\<rparr>)"
    by (simp add: save_table_def Let_def)
  moreover have "execute srv (history sr) (insert_query tname cols row) row = Some rerr \<longrightarrow>
       insert_rows srv tname cols (row # later) sr
         = insert_rows srv tname cols later
             (sr\<lparr>history := history sr @ [Execute (insert_query tname cols row) row],
                 stdout := stdout sr @ [Error_inserting tname rerr row]\<rparr>)"
    by (simp add: cursor_execute_def)
  moreover have "history (insert_rows srv tname cols later sr)
       = history sr @ map (\<lambda>row. Execute (insert_query tname cols row) row) later"
    by (rule history_insert_rows)
  ultimately show ?thesis by blast
qed

text \<open>
  A server that refuses to create the first table and to insert the row \<open>bad\<close>: the
  second table is created, and the row after \<open>bad\<close> is inserted.
\<close>

lemma server_failures_skipped_example:
  "save_tables
        \<lparr>execute = \<lambda>h q ps.
           if q = ''CREATE TABLE extracted_table_1 (id INT AUTO_INCREMENT PRIMARY KEY, `a` TEXT)''
           then Some ''1142''
           else if ps = [PStr ''bad''] then Some ''1366'' else None,
         fetchone = \<lambda>h. Inr None, fetchall = \<lambda>h. Inr [], commit = \<lambda>h. None\<rparr>
        [[[PStr ''a''], [PStr ''1'']], [[PStr ''b''], [PStr ''bad''], [PStr ''ok'']]]
        \<lparr>table_name = 1, history = [], stdout = []\<rparr>
     = (None,
        \<lparr>table_name = 3,
         history =
           [Execute (''SHOW TABLES LIKE '' @ quote @ ''extracted_table_1'' @ quote) [],
            Fetchone,
            Execute ''CREATE TABLE extracted_table_1 (id INT AUTO_INCREMENT PRIMARY KEY, `a` TEXT)'' [],
            Execute (''SHOW TABLES LIKE '' @ quote @ ''extracted_table_2'' @ quote) [],
            Fetchone,
            Execute ''CREATE TABLE extracted_table_2 (id INT AUTO_INCREMENT PRIMARY KEY, `b` TEXT)'' [],
            Execute ''INSERT INTO extracted_table_2 (`b`) VALUES (%s)'' [PStr ''bad''],
            Execute ''INSERT INTO extracted_table_2 (`b`) VALUES (%s)'' [PStr ''ok'']],
         stdout =
           [Error_creating ''extracted_table_1'' ''1142'',
            Error_inserting ''extracted_table_2'' ''1366'' [PStr ''bad'']]\<rparr>)"
  by (simp add: str_1 str_2 save_table_def sanitized_columns_def sanitize_def replace_def strip_def
        isspace_def check_create_table_def cursor_execute_def cursor_fetchone_def
        show_tables_query_def create_table_query_def insert_query_def backtick_def quote_def)

subsection \<open>A header cell that is not a string\<close>

text \<open>
  C8. The column names are derived from row 0 before the first \<open>try\<close> block, so a
  failure there is caught by neither block. A PDF whose first table has an empty (null)
  cell in row 0 and whose second table is well formed: \<open>col.strip()\<close> raises
  \<open>AttributeError\<close> on the null cell, and the exception leaves the loop over the tables
  and \<open>save\<close> itself. Whatever the server answers, the state of the sink is the state
  before: nothing is printed, the second table is never looked up, created or filled,
  and the commit is not reached. One table's failure has aborted the whole save.
\<close>

theorem null_header_aborts_save:
  "save_tables srv [[[PNone], [PStr ''1'']], [[PStr ''b''], [PStr ''ok'']]] s
     = (Some (AttributeError ''strip''), s)
   \<and> save srv
        \<lparr>fitz_open = \<lambda>path. Some \<lparr>fitz_pages = [], extract_image = []\<rparr>,
         pdfplumber_open = \<lambda>path. Some \<lparr>plumber_pages =
            [\<lparr>page_tables = [[[PNone], [PStr ''1'']], [[PStr ''b''], [PStr ''ok'']]]\<rparr>]\<rparr>,
         Image_open = \<lambda>blob. None\<rparr>
        \<lparr>file_object = PdfReader \<lparr>pdf_pages = [], metadata = []\<rparr>,
         file_path = ''a.pdf'', file_type = ''pdf''\<rparr> s
     = (Some (AttributeError ''strip''), s)"
  by (simp add: save_def save_table_def sanitized_columns_def and_then_def save_text_def
        extract_text_def extract_links_def extract_images_def extract_tables_def)

subsection \<open>The whole of \<open>save\<close>\<close>

text \<open>
  When the text, the links and the images are saved and the tables have string
  headers, \<open>save\<close> reaches the commit whatever the server answers while the tables
  are saved.
\<close>

lemma save_reaches_commit:
  assumes "extract_text self = Inr (text_content, meta)"
    and "save_text srv text_content s = (None, s1)"
    and "extract_links e self = Inr links"
    and "save_links srv links s1 = (None, s2)"
    and "extract_images e self = Inr images"
    and "save_images srv images s2 = (None, s3)"
    and "extract_tables e self = Inr tbls"
    and "string_headers tbls"
  shows "save srv e self s =
           and_then (raising (conn_commit srv (snd (save_tables srv tbls s3))))
             (\<lambda>s. (None, s\<lparr>stdout := stdout s @ [Data_saved]\<rparr>))"
proof -
  obtain s4 where s4: "save_tables srv tbls s3 = (None, s4)"
    using save_tables_no_exception [OF assms(8), of srv s3]
    by (cases "save_tables srv tbls s3") auto
  show ?thesis
    using assms(1-7) s4 by (simp add: save_def and_then_def)
qed

end
